theory Spec2Isabelle
  imports Main "HOL-Library.Multiset"
begin

section \<open>Probe executor: \<open>performCheck\<close> of \<open>supabase/functions/runCheck/index.ts\<close>\<close>

text \<open>
  The result of a probe is the \<open>CheckResult\<close> interface without \<open>monitor_id\<close> and
  \<open>checked_at\<close>: \<open>status\<close> is the union type \<open>"up" | "down"\<close>, \<open>response_time_ms\<close> is
  \<open>number | null\<close> and \<open>error_message\<close> is \<open>string | null\<close>; \<open>null\<close> is \<open>None\<close>.
\<close>

datatype check_status = Up | Down

record check_fields =
  cf_status :: check_status
  cf_response_time_ms :: "int option"
  cf_error_message :: "string option"

text \<open>
  A value thrown inside the \<open>try\<close> block. The handler only asks whether it is an
  instance of \<open>Error\<close> and, if so, reads its \<open>message\<close>.
\<close>

datatype js_value = JsError string | JsNonError

text \<open>
  The runtime's \<open>fetch\<close>: the promise resolves with a response, of which the code reads
  \<open>status\<close> and \<open>statusText\<close> (\<open>ok\<close> is derived from \<open>status\<close>), or rejects with a thrown
  value. A network failure is a rejection, and so is the abort caused by
  \<open>AbortSignal.timeout(ms)\<close> once \<open>ms\<close> milliseconds have passed without a response.
\<close>

datatype http_method = GET | HEAD

record request =
  req_url :: string
  req_method :: http_method
  req_timeout_ms :: nat

datatype fetch_outcome = Resolved nat string | Rejected js_value

record url_obj =
  url_protocol :: string
  url_host :: string

text \<open>
  What a run of the probe reads from its runtime: the outcome of \<open>fetch\<close> for the request
  made, the outcome of the constructor \<open>new URL(url)\<close> (which throws on a string that
  does not parse), and the two readings of \<open>Date.now()\<close>: the one at entry and the one
  taken after the request has settled (in the \<open>try\<close> block or in the \<open>catch\<close> block;
  each run takes exactly one of them).
\<close>

record probe_env =
  fetch :: "request \<Rightarrow> fetch_outcome"
  new_URL :: "string \<Rightarrow> js_value + url_obj"
  Date_now_entry :: int
  Date_now_settled :: int

text \<open>Decimal rendering of a number in a template literal (\<open>${response.status}\<close>).\<close>

fun string_of_nat :: "nat \<Rightarrow> string" where
  "string_of_nat n =
     (if n < 10 then [char_of (48 + n)]
      else string_of_nat (n div 10) @ [char_of (48 + n mod 10)])"

declare string_of_nat.simps [simp del]

text \<open>\<open>response.ok\<close>: the status is in the range 200 to 299.\<close>

definition response_ok :: "nat \<Rightarrow> bool" where
  "response_ok st \<longleftrightarrow> 200 \<le> st \<and> st \<le> 299"

text \<open>
  The body of the \<open>try\<close> block. \<open>Inl e\<close> is the value \<open>e\<close> thrown out of the block (a
  rejected \<open>await fetch\<close>, or \<open>new URL\<close> throwing); \<open>Inr r\<close> is \<open>return r\<close>.
\<close>

definition performCheck_try :: "probe_env \<Rightarrow> string \<Rightarrow> string \<Rightarrow> js_value + check_fields" where
  "performCheck_try env url type =
     (let startTime = Date_now_entry env in
      if type = ''http'' \<or> type = ''https'' then
        (case fetch env \<lparr>req_url = url, req_method = GET, req_timeout_ms = 10000\<rparr> of
           Rejected e \<Rightarrow> Inl e
         | Resolved st statusText \<Rightarrow>
             (let responseTime = Date_now_settled env - startTime in
              if response_ok st \<or> (300 \<le> st \<and> st < 400) then
                Inr \<lparr>cf_status = Up, cf_response_time_ms = Some responseTime,
                     cf_error_message = None\<rparr>
              else
                Inr \<lparr>cf_status = Down, cf_response_time_ms = Some responseTime,
                     cf_error_message =
                       Some (''HTTP '' @ string_of_nat st @ '': '' @ statusText)\<rparr>))
      else if type = ''ping'' then
        (case new_URL env url of
           Inl e \<Rightarrow> Inl e
         | Inr urlObj \<Rightarrow>
             (case fetch env \<lparr>req_url = url_protocol urlObj @ ''//'' @ url_host urlObj,
                              req_method = HEAD, req_timeout_ms = 5000\<rparr> of
                Rejected e \<Rightarrow> Inl e
              | Resolved st statusText \<Rightarrow>
                  (let responseTime = Date_now_settled env - startTime in
                   Inr \<lparr>cf_status = Up, cf_response_time_ms = Some responseTime,
                        cf_error_message = None\<rparr>)))
      else
        Inr \<lparr>cf_status = Down, cf_response_time_ms = None,
             cf_error_message = Some ''Unsupported monitor type''\<rparr>)"

text \<open>
  The \<open>catch\<close> block: \<open>error instanceof Error ? error.message : "Unknown error"\<close>.
\<close>

definition errorMessage_of :: "js_value \<Rightarrow> string" where
  "errorMessage_of error = (case error of JsError m \<Rightarrow> m | JsNonError \<Rightarrow> ''Unknown error'')"

text \<open>
  \<open>performCheck\<close>: the \<open>try\<close> block with its \<open>catch\<close>. The result type keeps a place
  for a value thrown to the caller (\<open>Inl\<close>), so that "never throws" is a statement about
  the function and not a consequence of its type.
\<close>

definition performCheck :: "probe_env \<Rightarrow> string \<Rightarrow> string \<Rightarrow> js_value + check_fields" where
  "performCheck env url type =
     (case performCheck_try env url type of
        Inr r \<Rightarrow> Inr r
      | Inl error \<Rightarrow>
          (let responseTime = Date_now_settled env - Date_now_entry env;
               errorMessage = errorMessage_of error
           in Inr \<lparr>cf_status = Down, cf_response_time_ms = Some responseTime,
                   cf_error_message = Some errorMessage\<rparr>))"

text \<open>A runtime used to evaluate the probe on concrete inputs.\<close>

definition env_of :: "fetch_outcome \<Rightarrow> int \<Rightarrow> int \<Rightarrow> probe_env" where
  "env_of out t0 t1 =
     \<lparr>fetch = (\<lambda>_. out),
      new_URL = (\<lambda>u. if u = '''' then Inl (JsError ''Invalid URL'')
                      else Inr \<lparr>url_protocol = ''https:'', url_host = ''example.test''\<rparr>),
      Date_now_entry = t0, Date_now_settled = t1\<rparr>"

section \<open>Tables and the helper function of the migration \<open>001_init.sql\<close>\<close>

text \<open>
  Rows of \<open>public.monitors\<close> and \<open>public.monitor_checks\<close>. Identifiers (\<open>uuid\<close>) are
  strings and timestamps (\<open>timestamptz\<close>) are integers on one time axis. A table is the
  list of its rows in the order of insertion.
\<close>

record monitor =
  m_id :: string
  m_user_id :: string
  m_name :: string
  m_url :: string
  m_type :: string
  m_interval_seconds :: int
  m_created_at :: int

record monitor_check =
  mc_id :: string
  mc_monitor_id :: string
  mc_status :: check_status
  mc_response_time_ms :: "int option"
  mc_error_message :: "string option"
  mc_checked_at :: int

record database =
  monitors :: "monitor list"
  monitor_checks :: "monitor_check list"

text \<open>
  \<open>order by key desc\<close> and \<open>limit 1\<close>. SQL leaves the order of rows with equal keys
  open; the model fixes one such order, and no property below depends on which.
\<close>

definition order_by_desc :: "('a \<Rightarrow> int) \<Rightarrow> 'a list \<Rightarrow> 'a list" where
  "order_by_desc key rows = rev (sort_key key rows)"

definition limit_1 :: "'a list \<Rightarrow> 'a list" where
  "limit_1 rows = take 1 rows"

text \<open>
  The row type of \<open>get_latest_monitor_status\<close>:
  \<open>returns table(monitor_id uuid, status text, checked_at timestamptz)\<close>.
\<close>

record status_row =
  sr_monitor_id :: string
  sr_status :: check_status
  sr_checked_at :: int

definition select_status_columns :: "monitor_check \<Rightarrow> status_row" where
  "select_status_columns c =
     \<lparr>sr_monitor_id = mc_monitor_id c, sr_status = mc_status c,
      sr_checked_at = mc_checked_at c\<rparr>"

text \<open>
  \<open>select monitor_id, status, checked_at from public.monitor_checks
   where monitor_id = monitor_uuid order by checked_at desc limit 1\<close>,
  over the rows of \<open>monitor_checks\<close> the caller may see.
\<close>

definition get_latest_monitor_status :: "monitor_check list \<Rightarrow> string \<Rightarrow> status_row list" where
  "get_latest_monitor_status checks monitor_uuid =
     map select_status_columns
       (limit_1 (order_by_desc mc_checked_at
          (filter (\<lambda>c. mc_monitor_id c = monitor_uuid) checks)))"

text \<open>
  Row level security. Policy \<open>users_can_manage_own_monitors\<close>: \<open>auth.uid() = user_id\<close>.
  Policy \<open>users_can_manage_own_checks\<close>: a monitor with the check's \<open>monitor_id\<close>
  exists and belongs to \<open>auth.uid()\<close>.
\<close>

definition rls_monitors :: "database \<Rightarrow> string \<Rightarrow> monitor list" where
  "rls_monitors db uid = filter (\<lambda>m. m_user_id m = uid) (monitors db)"

definition rls_monitor_checks :: "database \<Rightarrow> string \<Rightarrow> monitor_check list" where
  "rls_monitor_checks db uid =
     filter (\<lambda>c. \<exists>m \<in> set (monitors db). m_id m = mc_monitor_id c \<and> m_user_id m = uid)
       (monitor_checks db)"

section \<open>HTTP responses of the edge functions\<close>

text \<open>
  \<open>latest_status\<close> of \<open>MonitorWithStatus\<close>, and \<open>MonitorWithStatus\<close> itself: the
  monitor's own columns (\<open>...monitor\<close>) and \<open>latest_status\<close>, which is \<open>null\<close> or an
  object. \<open>response_time_ms\<close> is optional in that object.
\<close>

record latest_status =
  ls_status :: check_status
  ls_checked_at :: int
  ls_response_time_ms :: "int option"

record MonitorWithStatus =
  mws_monitor :: monitor
  mws_latest_status :: "latest_status option"

datatype response_body =
    NoBody
  | ErrorResponse string
  | CreatedMonitor monitor
  | MonitorList "MonitorWithStatus list" nat

record response =
  resp_status :: nat
  resp_body :: response_body

section \<open>\<open>createMonitor\<close>: \<open>supabase/functions/createMonitor/index.ts\<close>\<close>

text \<open>
  The parsed JSON body. A field is \<open>None\<close> when the property is missing (or \<open>null\<close>),
  so that \<open>!body.name\<close> holds for \<open>None\<close> and for the empty string, and
  \<open>body.interval_seconds || 300\<close> takes 300 for \<open>None\<close> and for 0. \<open>string_value\<close>
  reads a string property that the handler has found truthy.
\<close>

record CreateMonitorRequest =
  body_name :: "string option"
  body_url :: "string option"
  body_type :: "string option"
  body_interval_seconds :: "int option"

definition falsy :: "string option \<Rightarrow> bool" where
  "falsy v \<longleftrightarrow> (case v of None \<Rightarrow> True | Some s \<Rightarrow> s = [])"

definition string_value :: "string option \<Rightarrow> string" where
  "string_value v = (case v of None \<Rightarrow> [] | Some s \<Rightarrow> s)"

definition or_default :: "int option \<Rightarrow> int \<Rightarrow> int" where
  "or_default v d = (case v of None \<Rightarrow> d | Some n \<Rightarrow> if n = 0 then d else n)"

text \<open>
  What the handler gets from outside: the user of \<open>auth.getUser()\<close> (\<open>None\<close> when there
  is an \<open>authError\<close> or no user), whether \<open>new URL(s)\<close> returns for a string \<open>s\<close>,
  whether the insert reports an \<open>insertError\<close>, and the defaults the database fills in
  (\<open>uuid_generate_v4()\<close>, \<open>now()\<close>).
\<close>

record create_env =
  ce_user :: "string option"
  ce_URL_parses :: "string \<Rightarrow> bool"
  ce_insertError :: bool
  ce_uuid :: string
  ce_now :: int

text \<open>
  The handler, from the request method and the body (\<open>None\<close>: \<open>req.json()\<close> throws, which
  the outer \<open>catch\<close> turns into the 500 response) to the response and the database
  afterwards.
\<close>

definition createMonitor ::
  "create_env \<Rightarrow> database \<Rightarrow> string \<Rightarrow> CreateMonitorRequest option \<Rightarrow> response \<times> database" where
  "createMonitor env db method json =
     (if method = ''OPTIONS'' then (\<lparr>resp_status = 204, resp_body = NoBody\<rparr>, db)
      else if method \<noteq> ''POST'' then
        (\<lparr>resp_status = 405, resp_body = ErrorResponse ''Method not allowed''\<rparr>, db)
      else
        (case ce_user env of
           None \<Rightarrow>
             (\<lparr>resp_status = 401,
               resp_body = ErrorResponse ''Unauthorized - please log in''\<rparr>, db)
         | Some user_id \<Rightarrow>
             (case json of
                None \<Rightarrow>
                  (\<lparr>resp_status = 500, resp_body = ErrorResponse ''Internal server error''\<rparr>, db)
              | Some body \<Rightarrow>
                  (if falsy (body_name body) \<or> falsy (body_url body) \<or> falsy (body_type body) then
                     (\<lparr>resp_status = 400,
                       resp_body = ErrorResponse ''Missing required fields: name, url, type''\<rparr>, db)
                   else if string_value (body_type body) \<notin> set [''http'', ''https'', ''ping''] then
                     (\<lparr>resp_status = 400,
                       resp_body =
                         ErrorResponse
                           (''Invalid type. Must be 'http', 'https', or 'ping'' @ [CHR 0x27])\<rparr>,
                      db)
                   else if \<not> ce_URL_parses env (string_value (body_url body)) then
                     (\<lparr>resp_status = 400, resp_body = ErrorResponse ''Invalid URL format''\<rparr>, db)
                   else if ce_insertError env then
                     (\<lparr>resp_status = 500,
                       resp_body = ErrorResponse ''Failed to create monitor''\<rparr>, db)
                   else
                     (let data =
                        \<lparr>m_id = ce_uuid env, m_user_id = user_id,
                         m_name = string_value (body_name body),
                         m_url = string_value (body_url body),
                         m_type = string_value (body_type body),
                         m_interval_seconds = or_default (body_interval_seconds body) 300,
                         m_created_at = ce_now env\<rparr>
                      in (\<lparr>resp_status = 201, resp_body = CreatedMonitor data\<rparr>,
                          db\<lparr>monitors := monitors db @ [data]\<rparr>))))))"

section \<open>\<open>getMonitors\<close>: \<open>supabase/functions/getMonitors/index.ts\<close>\<close>

text \<open>
  The result \<open>{data, error}\<close> of \<open>supabaseClient.rpc(...)\<close>, and the round trips to the
  store the handler makes, in the order it starts them.
\<close>

datatype rpc_result = RpcData "status_row list" | RpcError string

datatype store_call = AuthGetUser | SelectMonitors | RpcLatestStatus string

text \<open>
  What the handler gets from outside: the user of \<open>auth.getUser()\<close>, whether the query
  on \<open>monitors\<close> reports a \<open>fetchError\<close>, and the \<open>statusError\<close> that the call of the
  helper function reports for a monitor id (\<open>None\<close>: the call succeeds).
\<close>

record list_env =
  le_user :: "string option"
  le_fetchError :: bool
  le_statusError :: "string \<Rightarrow> string option"

text \<open>
  \<open>supabaseClient.rpc("get_latest_monitor_status", {monitor_uuid})\<close> as the user \<open>uid\<close>.
\<close>

definition rpc_get_latest_monitor_status ::
  "list_env \<Rightarrow> database \<Rightarrow> string \<Rightarrow> string \<Rightarrow> rpc_result" where
  "rpc_get_latest_monitor_status env db uid monitor_uuid =
     (case le_statusError env monitor_uuid of
        Some statusError \<Rightarrow> RpcError statusError
      | None \<Rightarrow> RpcData (get_latest_monitor_status (rls_monitor_checks db uid) monitor_uuid))"

text \<open>
  \<open>status.response_time_ms\<close>, read from a row of the helper function: the row has the
  columns \<open>monitor_id\<close>, \<open>status\<close> and \<open>checked_at\<close> only, so the property is
  \<open>undefined\<close> and the JSON response carries no \<open>response_time_ms\<close>.
\<close>

definition row_response_time_ms :: "status_row \<Rightarrow> int option" where
  "row_response_time_ms status = None"

text \<open>
  The body of the \<open>map\<close> callback: one call of the helper function for the monitor,
  then \<open>latestStatus\<close>, which stays \<open>null\<close> unless there is no error and at least one
  row. The result is the call made and the monitor with its status.
\<close>

definition with_latest_status ::
  "list_env \<Rightarrow> database \<Rightarrow> string \<Rightarrow> monitor \<Rightarrow> store_call \<times> MonitorWithStatus" where
  "with_latest_status env db uid monitor =
     (let latestStatus =
        (case rpc_get_latest_monitor_status env db uid (m_id monitor) of
           RpcError statusError \<Rightarrow> None
         | RpcData statusData \<Rightarrow>
             (case statusData of
                [] \<Rightarrow> None
              | status # _ \<Rightarrow>
                  Some \<lparr>ls_status = sr_status status, ls_checked_at = sr_checked_at status,
                        ls_response_time_ms = row_response_time_ms status\<rparr>))
      in (RpcLatestStatus (m_id monitor),
          \<lparr>mws_monitor = monitor, mws_latest_status = latestStatus\<rparr>))"

text \<open>
  \<open>from("monitors").select("*").order("created_at", {ascending: false})\<close> as the
  user \<open>uid\<close>.
\<close>

definition select_monitors :: "database \<Rightarrow> string \<Rightarrow> monitor list" where
  "select_monitors db uid = order_by_desc m_created_at (rls_monitors db uid)"

text \<open>The handler: the round trips it makes and its response. It reads only.\<close>

definition getMonitors :: "list_env \<Rightarrow> database \<Rightarrow> string \<Rightarrow> store_call list \<times> response" where
  "getMonitors env db method =
     (if method = ''OPTIONS'' then ([], \<lparr>resp_status = 204, resp_body = NoBody\<rparr>)
      else if method \<noteq> ''GET'' then
        ([], \<lparr>resp_status = 405, resp_body = ErrorResponse ''Method not allowed''\<rparr>)
      else
        (case le_user env of
           None \<Rightarrow>
             ([AuthGetUser],
              \<lparr>resp_status = 401, resp_body = ErrorResponse ''Unauthorized - please log in''\<rparr>)
         | Some uid \<Rightarrow>
             (if le_fetchError env then
                ([AuthGetUser, SelectMonitors],
                 \<lparr>resp_status = 500, resp_body = ErrorResponse ''Failed to fetch monitors''\<rparr>)
              else
                (let monitorsWithStatus = map (with_latest_status env db uid) (select_monitors db uid)
                 in ([AuthGetUser, SelectMonitors] @ map fst monitorsWithStatus,
                     \<lparr>resp_status = 200,
                       resp_body = MonitorList (map snd monitorsWithStatus)
                                     (length monitorsWithStatus)\<rparr>)))))"

text \<open>Databases and runtimes used to evaluate the handlers on concrete inputs.\<close>

definition site_monitor :: "string \<Rightarrow> int \<Rightarrow> monitor" where
  "site_monitor mid t =
     \<lparr>m_id = mid, m_user_id = ''alice'', m_name = ''site'',
      m_url = ''https://example.test'', m_type = ''https'', m_interval_seconds = 300,
      m_created_at = t\<rparr>"

definition check_at :: "string \<Rightarrow> string \<Rightarrow> check_status \<Rightarrow> int \<Rightarrow> int \<Rightarrow> monitor_check" where
  "check_at cid mid st ms t =
     \<lparr>mc_id = cid, mc_monitor_id = mid, mc_status = st, mc_response_time_ms = Some ms,
      mc_error_message = None, mc_checked_at = t\<rparr>"

definition empty_db :: database where
  "empty_db = \<lparr>monitors = [], monitor_checks = []\<rparr>"

definition alice_create_env :: create_env where
  "alice_create_env =
     \<lparr>ce_user = Some ''alice'', ce_URL_parses = (\<lambda>s. s \<noteq> ''not a url''),
      ce_insertError = False, ce_uuid = ''m1'', ce_now = 100\<rparr>"

definition alice_list_env :: "(string \<Rightarrow> string option) \<Rightarrow> list_env" where
  "alice_list_env failing =
     \<lparr>le_user = Some ''alice'', le_fetchError = False, le_statusError = failing\<rparr>"

definition site_request :: "string \<Rightarrow> int option \<Rightarrow> CreateMonitorRequest" where
  "site_request name interval =
     \<lparr>body_name = Some name, body_url = Some ''https://example.test'',
      body_type = Some ''https'', body_interval_seconds = interval\<rparr>"

definition out_of_order_checks :: "monitor_check list" where
  "out_of_order_checks =
     [check_at ''c2'' ''m1'' Up 120 7, check_at ''c1'' ''m1'' Down 30 5,
      check_at ''c3'' ''m2'' Down 10 9]"

definition checked_db :: database where
  "checked_db =
     \<lparr>monitors = [site_monitor ''m1'' 100],
      monitor_checks = [check_at ''c1'' ''m1'' Up 120 7]\<rparr>"

definition three_monitors_db :: database where
  "three_monitors_db =
     \<lparr>monitors = [site_monitor ''m1'' 100, site_monitor ''m2'' 200, site_monitor ''m3'' 300],
      monitor_checks = [check_at ''c1'' ''m1'' Up 120 7]\<rparr>"

definition no_statusError :: "string \<Rightarrow> string option" where
  "no_statusError monitor_uuid = None"

definition statusError_for :: "string \<Rightarrow> string \<Rightarrow> string option" where
  "statusError_for failing monitor_uuid =
     (if monitor_uuid = failing then Some ''connection reset'' else None)"

section \<open>Properties of the probe\<close>

lemma performCheck_returns: "\<exists>r. performCheck env url type = Inr r"
  by (simp add: performCheck_def Let_def split: sum.split)

lemma performCheck_unsupported:
  assumes "type \<noteq> ''http''" "type \<noteq> ''https''" "type \<noteq> ''ping''"
  shows "performCheck env url type =
           Inr \<lparr>cf_status = Down, cf_response_time_ms = None,
                cf_error_message = Some ''Unsupported monitor type''\<rparr>"
  using assms by (simp add: performCheck_def performCheck_try_def Let_def)

text \<open>
  Claim C3. For every pair of a URL and a protocol string, and whatever the runtime
  answers, \<open>performCheck\<close> returns one result and throws nothing to its caller; the
  status of the result is up or down; and for a protocol string other than
  \<open>http\<close>, \<open>https\<close> and \<open>ping\<close> the result is down, without a latency, with the
  message \<open>Unsupported monitor type\<close>.
\<close>

theorem performCheck_never_throws:
  "\<exists>r. performCheck env url type = Inr r
       \<and> (cf_status r = Up \<or> cf_status r = Down)
       \<and> (type \<notin> {''http'', ''https'', ''ping''} \<longrightarrow>
            cf_status r = Down \<and> cf_response_time_ms r = None
            \<and> cf_error_message r = Some ''Unsupported monitor type'')"
proof -
  obtain r where r: "performCheck env url type = Inr r"
    using performCheck_returns by blast
  have "cf_status r = Up \<or> cf_status r = Down"
    by (cases "cf_status r") simp_all
  moreover have "cf_status r = Down \<and> cf_response_time_ms r = None
      \<and> cf_error_message r = Some ''Unsupported monitor type''"
    if "type \<notin> {''http'', ''https'', ''ping''}"
  proof -
    from that have "type \<noteq> ''http''" "type \<noteq> ''https''" "type \<noteq> ''ping''" by auto
    from performCheck_unsupported [OF this, of env url] r show ?thesis by simp
  qed
  ultimately show ?thesis using r by blast
qed

theorem performCheck_never_throws_witness:
  "''ftp'' \<notin> {''http'', ''https'', ''ping''}
   \<and> performCheck (env_of (Rejected JsNonError) 0 7) ''ftp://example.test'' ''ftp''
       = Inr \<lparr>cf_status = Down, cf_response_time_ms = None,
              cf_error_message = Some ''Unsupported monitor type''\<rparr>"
proof -
  have ne: "''ftp'' \<notin> {''http'', ''https'', ''ping''}" by simp
  obtain r where r: "performCheck (env_of (Rejected JsNonError) 0 7) ''ftp://example.test'' ''ftp'' = Inr r"
    and d: "''ftp'' \<notin> {''http'', ''https'', ''ping''} \<longrightarrow>
            cf_status r = Down \<and> cf_response_time_ms r = None
            \<and> cf_error_message r = Some ''Unsupported monitor type''"
    using performCheck_never_throws [of "env_of (Rejected JsNonError) 0 7" "''ftp://example.test''" "''ftp''"]
    by blast
  from d ne have "r = \<lparr>cf_status = Down, cf_response_time_ms = None,
              cf_error_message = Some ''Unsupported monitor type''\<rparr>"
    by (cases r) simp
  with r ne show ?thesis by simp
qed


lemma performCheck_http:
  assumes "type = ''http'' \<or> type = ''https''"
  shows "performCheck env url type =
           (case fetch env \<lparr>req_url = url, req_method = GET, req_timeout_ms = 10000\<rparr> of
              Resolved st statusText \<Rightarrow>
                Inr \<lparr>cf_status = (if 200 \<le> st \<and> st \<le> 399 then Up else Down),
                     cf_response_time_ms = Some (Date_now_settled env - Date_now_entry env),
                     cf_error_message =
                       (if 200 \<le> st \<and> st \<le> 399 then None
                        else Some (''HTTP '' @ string_of_nat st @ '': '' @ statusText))\<rparr>
            | Rejected e \<Rightarrow>
                Inr \<lparr>cf_status = Down,
                     cf_response_time_ms = Some (Date_now_settled env - Date_now_entry env),
                     cf_error_message = Some (errorMessage_of e)\<rparr>)"
proof (cases "fetch env \<lparr>req_url = url, req_method = GET, req_timeout_ms = 10000\<rparr>")
  case (Resolved st statusText)
  have "response_ok st \<or> (300 \<le> st \<and> st < 400) \<longleftrightarrow> 200 \<le> st \<and> st \<le> 399"
    unfolding response_ok_def by arith
  with Resolved assms show ?thesis
    by (simp add: performCheck_def performCheck_try_def Let_def)
next
  case (Rejected e)
  with assms show ?thesis
    by (simp add: performCheck_def performCheck_try_def Let_def)
qed

text \<open>
  Claim C4. For the protocol strings \<open>http\<close> and \<open>https\<close> the probe is decided by
  the outcome of one request: a GET of the target with a 10000 ms abort signal. The
  result is up exactly when that request resolves with a status code from 200 to 399.
  A response with any other status code gives a down result whose message is
  \<open>HTTP <code>: <status text></code>\<close>; a rejected request (a network failure, or the abort after
  10 seconds) gives a down result whose message is the message of the thrown error.
\<close>

theorem performCheck_http_up_iff_2xx_3xx:
  assumes "type = ''http'' \<or> type = ''https''"
  shows "\<exists>r. performCheck env url type = Inr r
     \<and> (cf_status r = Up \<longleftrightarrow>
          (\<exists>st statusText.
             fetch env \<lparr>req_url = url, req_method = GET, req_timeout_ms = 10000\<rparr>
               = Resolved st statusText \<and> 200 \<le> st \<and> st \<le> 399))
     \<and> (\<forall>st statusText.
          fetch env \<lparr>req_url = url, req_method = GET, req_timeout_ms = 10000\<rparr>
            = Resolved st statusText \<and> \<not> (200 \<le> st \<and> st \<le> 399) \<longrightarrow>
          cf_status r = Down
          \<and> cf_error_message r = Some (''HTTP '' @ string_of_nat st @ '': '' @ statusText))
     \<and> (\<forall>e.
          fetch env \<lparr>req_url = url, req_method = GET, req_timeout_ms = 10000\<rparr> = Rejected e \<longrightarrow>
          cf_status r = Down \<and> cf_error_message r = Some (errorMessage_of e))"
proof (cases "fetch env \<lparr>req_url = url, req_method = GET, req_timeout_ms = 10000\<rparr>")
  case (Resolved st statusText)
  with performCheck_http [OF assms, of env url] show ?thesis by simp
next
  case (Rejected e)
  with performCheck_http [OF assms, of env url] show ?thesis by simp
qed

lemma string_of_nat_404: "string_of_nat 404 = ''404''"
  by code_simp

theorem performCheck_http_up_iff_2xx_3xx_witness:
  "(''https'' = ''http'' \<or> ''https'' = ''https'')
   \<and> (\<exists>r. performCheck (env_of (Resolved 404 ''Not Found'') 1000 1042)
             ''https://example.test/missing'' ''https'' = Inr r
          \<and> cf_status r = Down
          \<and> cf_error_message r = Some ''HTTP 404: Not Found'')"
proof -
  let ?env = "env_of (Resolved 404 ''Not Found'') 1000 1042"
  let ?url = "''https://example.test/missing''"
  have hyp: "''https'' = ''http'' \<or> ''https'' = ''https''" by simp
  have out: "fetch ?env \<lparr>req_url = ?url, req_method = GET, req_timeout_ms = 10000\<rparr>
               = Resolved 404 ''Not Found'' \<and> \<not> (200 \<le> (404::nat) \<and> (404::nat) \<le> 399)"
    by (simp add: env_of_def)
  from performCheck_http_up_iff_2xx_3xx [OF hyp, of ?env ?url]
  obtain r where r: "performCheck ?env ?url ''https'' = Inr r"
    and down: "\<forall>st statusText.
          fetch ?env \<lparr>req_url = ?url, req_method = GET, req_timeout_ms = 10000\<rparr>
            = Resolved st statusText \<and> \<not> (200 \<le> st \<and> st \<le> 399) \<longrightarrow>
          cf_status r = Down
          \<and> cf_error_message r = Some (''HTTP '' @ string_of_nat st @ '': '' @ statusText)"
    by blast
  from down out have "cf_status r = Down
      \<and> cf_error_message r = Some (''HTTP '' @ string_of_nat 404 @ '': '' @ ''Not Found'')"
    by blast
  then have "cf_status r = Down \<and> cf_error_message r = Some ''HTTP 404: Not Found''"
    by (simp add: string_of_nat_404)
  with r hyp show ?thesis by blast
qed


lemma performCheck_try_cases:
  assumes "performCheck_try env url type = Inr r"
  shows "(cf_status r = Up
            \<and> cf_response_time_ms r = Some (Date_now_settled env - Date_now_entry env)
            \<and> cf_error_message r = None)
         \<or> (cf_status r = Down
            \<and> cf_response_time_ms r = Some (Date_now_settled env - Date_now_entry env)
            \<and> (\<exists>st statusText.
                  cf_error_message r = Some (''HTTP '' @ string_of_nat st @ '': '' @ statusText)))
         \<or> (cf_status r = Down \<and> cf_response_time_ms r = None
            \<and> cf_error_message r = Some ''Unsupported monitor type'')"
proof -
  consider (http) "type = ''http'' \<or> type = ''https''"
    | (ping) "\<not> (type = ''http'' \<or> type = ''https'')" "type = ''ping''"
    | (other) "\<not> (type = ''http'' \<or> type = ''https'')" "type \<noteq> ''ping''"
    by blast
  then show ?thesis
  proof cases
    case http
    show ?thesis
    proof (cases "fetch env \<lparr>req_url = url, req_method = GET, req_timeout_ms = 10000\<rparr>")
      case (Resolved st statusText)
      show ?thesis
      proof (cases "response_ok st \<or> (300 \<le> st \<and> st < 400)")
        case True
        with Resolved http assms
        have "r = \<lparr>cf_status = Up,
                 cf_response_time_ms = Some (Date_now_settled env - Date_now_entry env),
                 cf_error_message = None\<rparr>"
          by (simp add: performCheck_try_def Let_def)
        then show ?thesis by simp
      next
        case False
        with Resolved http assms
        have "r = \<lparr>cf_status = Down,
                 cf_response_time_ms = Some (Date_now_settled env - Date_now_entry env),
                 cf_error_message = Some (''HTTP '' @ string_of_nat st @ '': '' @ statusText)\<rparr>"
          by (simp add: performCheck_try_def Let_def)
        then show ?thesis by auto
      qed
    next
      case (Rejected e)
      with http assms show ?thesis by (simp add: performCheck_try_def Let_def)
    qed
  next
    case ping
    with assms have "r = \<lparr>cf_status = Up, cf_response_time_ms = Some (Date_now_settled env - Date_now_entry env),
                     cf_error_message = None\<rparr>"
      by (simp add: performCheck_try_def Let_def split: sum.splits fetch_outcome.splits)
    then show ?thesis by simp
  next
    case other
    with assms have "r = \<lparr>cf_status = Down, cf_response_time_ms = None,
             cf_error_message = Some ''Unsupported monitor type''\<rparr>"
      by (simp add: performCheck_try_def Let_def)
    then show ?thesis by simp
  qed
qed

lemma performCheck_cases:
  assumes "performCheck env url type = Inr r"
  shows "(cf_status r = Up
            \<and> cf_response_time_ms r = Some (Date_now_settled env - Date_now_entry env)
            \<and> cf_error_message r = None)
         \<or> (cf_status r = Down
            \<and> cf_response_time_ms r = Some (Date_now_settled env - Date_now_entry env)
            \<and> (\<exists>st statusText.
                  cf_error_message r = Some (''HTTP '' @ string_of_nat st @ '': '' @ statusText)))
         \<or> (cf_status r = Down \<and> cf_response_time_ms r = None
            \<and> cf_error_message r = Some ''Unsupported monitor type'')
         \<or> (cf_status r = Down
            \<and> cf_response_time_ms r = Some (Date_now_settled env - Date_now_entry env)
            \<and> (\<exists>e. performCheck_try env url type = Inl e
                  \<and> cf_error_message r = Some (errorMessage_of e)))"
proof (cases "performCheck_try env url type")
  case (Inl e)
  with assms
  have "r = \<lparr>cf_status = Down,
           cf_response_time_ms = Some (Date_now_settled env - Date_now_entry env),
           cf_error_message = Some (errorMessage_of e)\<rparr>"
    by (simp add: performCheck_def Let_def)
  with Inl show ?thesis by simp
next
  case (Inr r')
  with assms have "r' = r" by (simp add: performCheck_def)
  with Inr have "performCheck_try env url type = Inr r" by simp
  from performCheck_try_cases [OF this] show ?thesis by blast
qed

text \<open>
  Claim C5, as the probe has it. Every result returned by the probe satisfies the field
  invariant but for the sign of the latency: an up result has no error message and has
  a latency, which is the second reading of \<open>Date.now()\<close> minus the first; a down
  result has an error message, or else a latency and no error message, so a down result
  never lacks both. A latency, when present, is non-negative exactly when the second
  reading is not earlier than the first, that is, unless the wall clock has stepped
  backwards while the probe ran.
\<close>

theorem performCheck_field_invariant:
  "\<exists>r. performCheck env url type = Inr r
     \<and> (cf_status r = Up \<longrightarrow>
          cf_response_time_ms r = Some (Date_now_settled env - Date_now_entry env)
          \<and> cf_error_message r = None)
     \<and> (cf_status r = Down \<longrightarrow>
          cf_error_message r \<noteq> None
          \<or> (cf_response_time_ms r \<noteq> None \<and> cf_error_message r = None))
     \<and> (\<forall>latency. cf_response_time_ms r = Some latency \<longrightarrow>
          (0 \<le> latency \<longleftrightarrow> Date_now_entry env \<le> Date_now_settled env))"
proof -
  obtain r where r: "performCheck env url type = Inr r"
    using performCheck_returns by blast
  have up: "cf_status r = Up \<longrightarrow>
          cf_response_time_ms r = Some (Date_now_settled env - Date_now_entry env)
          \<and> cf_error_message r = None"
    using performCheck_cases [OF r] by auto
  have down: "cf_status r = Down \<longrightarrow>
          cf_error_message r \<noteq> None
          \<or> (cf_response_time_ms r \<noteq> None \<and> cf_error_message r = None)"
    using performCheck_cases [OF r] by auto
  have sign: "0 \<le> latency \<longleftrightarrow> Date_now_entry env \<le> Date_now_settled env"
    if "cf_response_time_ms r = Some latency" for latency
  proof -
    from that performCheck_cases [OF r]
    have "latency = Date_now_settled env - Date_now_entry env" by auto
    then show ?thesis by simp
  qed
  from r up down sign show ?thesis by blast
qed

theorem performCheck_field_invariant_witness:
  "performCheck (env_of (Resolved 200 ''OK'') 1000 1042) ''https://example.test'' ''https''
       = Inr \<lparr>cf_status = Up, cf_response_time_ms = Some 42, cf_error_message = None\<rparr>
   \<and> Date_now_entry (env_of (Resolved 200 ''OK'') 1000 1042)
       \<le> Date_now_settled (env_of (Resolved 200 ''OK'') 1000 1042)
   \<and> (\<exists>r. performCheck (env_of (Resolved 200 ''OK'') 1000 1042) ''https://example.test'' ''https''
            = Inr r
          \<and> cf_status r = Up
          \<and> (\<exists>latency. cf_response_time_ms r = Some latency \<and> 0 \<le> latency)
          \<and> cf_error_message r = None)"
proof -
  let ?env = "env_of (Resolved 200 ''OK'') 1000 1042"
  have clock: "Date_now_entry ?env \<le> Date_now_settled ?env"
    by (simp add: env_of_def)
  have val: "performCheck ?env ''https://example.test'' ''https''
       = Inr \<lparr>cf_status = Up, cf_response_time_ms = Some 42, cf_error_message = None\<rparr>"
    by (simp add: performCheck_def performCheck_try_def env_of_def response_ok_def)
  from performCheck_field_invariant [of ?env "''https://example.test''" "''https''"]
  obtain r where r: "performCheck ?env ''https://example.test'' ''https'' = Inr r"
    and up: "cf_status r = Up \<longrightarrow>
          cf_response_time_ms r = Some (Date_now_settled ?env - Date_now_entry ?env)
          \<and> cf_error_message r = None"
    and sign: "\<forall>latency. cf_response_time_ms r = Some latency \<longrightarrow>
          (0 \<le> latency \<longleftrightarrow> Date_now_entry ?env \<le> Date_now_settled ?env)"
    by blast
  from r val have st: "cf_status r = Up" by auto
  with up have lat: "cf_response_time_ms r = Some (Date_now_settled ?env - Date_now_entry ?env)"
    and noerr: "cf_error_message r = None"
    by simp_all
  from sign lat clock have "0 \<le> Date_now_settled ?env - Date_now_entry ?env" by blast
  with lat have "\<exists>latency. cf_response_time_ms r = Some latency \<and> 0 \<le> latency" by blast
  with r st noerr val clock show ?thesis by blast
qed

text \<open>
  The statement that the latency of an up result is never negative fails: when the
  request resolves with 200 and the second reading of \<open>Date.now()\<close> is 100 ms before
  the first, the result is up with a latency of -100 ms.
\<close>

theorem performCheck_field_invariant_counterexample:
  "performCheck (env_of (Resolved 200 ''OK'') 1000 900) ''https://example.test'' ''https''
     = Inr \<lparr>cf_status = Up, cf_response_time_ms = Some (- 100), cf_error_message = None\<rparr>"
  by (simp add: performCheck_def performCheck_try_def env_of_def response_ok_def)

lemma errorMessage_of_empty: "errorMessage_of e = [] \<longleftrightarrow> e = JsError []"
  by (cases e) (simp_all add: errorMessage_of_def)

lemma performCheck_down_message:
  assumes "performCheck env url type = Inr r" "cf_status r = Down"
  shows "\<exists>m. cf_error_message r = Some m
           \<and> (m = [] \<longleftrightarrow> performCheck_try env url type = Inl (JsError []))"
proof (cases "performCheck_try env url type")
  case (Inl e)
  with assms(1)
  have "cf_error_message r = Some (errorMessage_of e)"
    by (auto simp: performCheck_def Let_def)
  with Inl show ?thesis by (simp add: errorMessage_of_empty)
next
  case (Inr r')
  with assms(1) have "r' = r" by (simp add: performCheck_def)
  with Inr have body: "performCheck_try env url type = Inr r" by simp
  from performCheck_try_cases [OF body] assms(2)
  have "\<exists>m. cf_error_message r = Some m \<and> m \<noteq> []" by auto
  with body show ?thesis by auto
qed

text \<open>
  Claim C9, as the probe has it. Every result returned by the probe has an error
  message exactly when its status is down. The message of a down result is empty only
  in the \<open>catch\<close> branch, and there only when the \<open>Error\<close> thrown inside the \<open>try\<close>
  block (a rejected request, a timeout, a URL that does not parse) has itself an empty
  \<open>message\<close>, which the handler copies as it is: the messages \<open>HTTP <code>: <text></code>\<close>,
  \<open>Unsupported monitor type\<close> and \<open>Unknown error\<close> are never empty.
\<close>

theorem performCheck_error_message_iff_down:
  "\<exists>r. performCheck env url type = Inr r
     \<and> (cf_error_message r \<noteq> None \<longleftrightarrow> cf_status r = Down)
     \<and> (cf_status r = Down \<longrightarrow>
          (\<exists>m. cf_error_message r = Some m
             \<and> (m = [] \<longleftrightarrow> performCheck_try env url type = Inl (JsError []))))
     \<and> (\<forall>e. performCheck_try env url type = Inl e \<longrightarrow>
          cf_status r = Down \<and> cf_error_message r = Some (errorMessage_of e))"
proof -
  obtain r where r: "performCheck env url type = Inr r"
    using performCheck_returns by blast
  have iff: "cf_error_message r \<noteq> None \<longleftrightarrow> cf_status r = Down"
    using performCheck_cases [OF r] by auto
  have msg: "cf_status r = Down \<longrightarrow>
          (\<exists>m. cf_error_message r = Some m
             \<and> (m = [] \<longleftrightarrow> performCheck_try env url type = Inl (JsError [])))"
    using performCheck_down_message [OF r] by blast
  have thrown: "cf_status r = Down \<and> cf_error_message r = Some (errorMessage_of e)"
    if "performCheck_try env url type = Inl e" for e
    using that r by (auto simp: performCheck_def Let_def)
  from r iff msg thrown show ?thesis by blast
qed

theorem performCheck_error_message_iff_down_witness:
  "performCheck_try (env_of (Rejected (JsError ''Signal timed out.'')) 1000 11000)
       ''https://example.test'' ''https'' = Inl (JsError ''Signal timed out.'')
   \<and> (\<exists>r. performCheck (env_of (Rejected (JsError ''Signal timed out.'')) 1000 11000)
            ''https://example.test'' ''https'' = Inr r
          \<and> cf_status r = Down
          \<and> cf_error_message r = Some ''Signal timed out.'')"
proof -
  let ?env = "env_of (Rejected (JsError ''Signal timed out.'')) 1000 11000"
  have raised: "performCheck_try ?env ''https://example.test'' ''https''
               = Inl (JsError ''Signal timed out.'')"
    by (simp add: performCheck_try_def env_of_def)
  from performCheck_error_message_iff_down [of ?env "''https://example.test''" "''https''"]
  obtain r where r: "performCheck ?env ''https://example.test'' ''https'' = Inr r"
    and thrown: "\<forall>e. performCheck_try ?env ''https://example.test'' ''https'' = Inl e \<longrightarrow>
          cf_status r = Down \<and> cf_error_message r = Some (errorMessage_of e)"
    by blast
  from thrown raised
  have "cf_status r = Down
      \<and> cf_error_message r = Some (errorMessage_of (JsError ''Signal timed out.''))"
    by blast
  then have "cf_status r = Down \<and> cf_error_message r = Some ''Signal timed out.''"
    by (simp add: errorMessage_of_def)
  with r raised show ?thesis by blast
qed

text \<open>
  The statement that every down result carries a non-empty message fails in the
  \<open>catch\<close> branch: when the request is rejected with an \<open>Error\<close> whose \<open>message\<close>
  is the empty string, the result is down and its error message is the empty string.
\<close>

theorem performCheck_error_message_iff_down_counterexample:
  "performCheck (env_of (Rejected (JsError [])) 1000 1005) ''https://example.test'' ''https''
     = Inr \<lparr>cf_status = Down, cf_response_time_ms = Some 5, cf_error_message = Some []\<rparr>"
  by (simp add: performCheck_def performCheck_try_def env_of_def errorMessage_of_def)

section \<open>Properties of the helper function \<open>get_latest_monitor_status\<close>\<close>

lemma order_by_desc_Nil: "order_by_desc key rows = [] \<longleftrightarrow> rows = []"
proof -
  have "length (order_by_desc key rows) = length rows"
    by (simp add: order_by_desc_def)
  then show ?thesis by (metis length_0_conv)
qed

lemma set_order_by_desc: "set (order_by_desc key rows) = set rows"
  by (simp add: order_by_desc_def)

lemma order_by_desc_first_max:
  assumes "order_by_desc key rows = r # rest"
  shows "r \<in> set rows \<and> (\<forall>x \<in> set rows. key x \<le> key r)"
proof -
  from assms have ys: "sort_key key rows = rev rest @ [r]"
    by (simp add: order_by_desc_def rev_eq_Cons_iff)
  have "sorted (map key (sort_key key rows))" by simp
  with ys have "\<forall>x \<in> set (rev rest). key x \<le> key r"
    by (simp add: sorted_append)
  moreover have "set rows = set (rev rest @ [r])"
    using ys by (metis set_sort)
  ultimately show ?thesis by auto
qed

lemma get_latest_monitor_status_empty:
  assumes "\<forall>c \<in> set checks. mc_monitor_id c \<noteq> monitor_uuid"
  shows "get_latest_monitor_status checks monitor_uuid = []"
proof -
  from assms have "filter (\<lambda>c. mc_monitor_id c = monitor_uuid) checks = []"
    by (simp add: filter_empty_conv)
  then show ?thesis
    by (simp add: get_latest_monitor_status_def order_by_desc_def limit_1_def)
qed

lemma get_latest_monitor_status_max:
  assumes "\<exists>c \<in> set checks. mc_monitor_id c = monitor_uuid"
  shows "\<exists>c \<in> set checks. mc_monitor_id c = monitor_uuid
           \<and> get_latest_monitor_status checks monitor_uuid = [select_status_columns c]
           \<and> (\<forall>c' \<in> set checks. mc_monitor_id c' = monitor_uuid \<longrightarrow>
                 mc_checked_at c' \<le> mc_checked_at c)"
proof -
  let ?own = "filter (\<lambda>c. mc_monitor_id c = monitor_uuid) checks"
  from assms have "?own \<noteq> []" by (simp add: filter_empty_conv)
  then have "order_by_desc mc_checked_at ?own \<noteq> []" by (simp add: order_by_desc_Nil)
  then obtain c rest where ord: "order_by_desc mc_checked_at ?own = c # rest"
    by (cases "order_by_desc mc_checked_at ?own") auto
  from order_by_desc_first_max [OF ord]
  have c: "c \<in> set ?own" and mx: "\<forall>x \<in> set ?own. mc_checked_at x \<le> mc_checked_at c"
    by auto
  from ord have "get_latest_monitor_status checks monitor_uuid = [select_status_columns c]"
    by (simp add: get_latest_monitor_status_def limit_1_def)
  with c mx show ?thesis by auto
qed

lemma get_latest_monitor_status_checked_at:
  "map sr_checked_at (get_latest_monitor_status checks monitor_uuid) =
     (if \<forall>c \<in> set checks. mc_monitor_id c \<noteq> monitor_uuid then []
      else [Max (mc_checked_at ` {c \<in> set checks. mc_monitor_id c = monitor_uuid})])"
proof (cases "\<forall>c \<in> set checks. mc_monitor_id c \<noteq> monitor_uuid")
  case True
  then show ?thesis by (simp add: get_latest_monitor_status_empty)
next
  case False
  then have ex: "\<exists>c \<in> set checks. mc_monitor_id c = monitor_uuid" by blast
  from get_latest_monitor_status_max [OF ex]
  obtain c where c: "c \<in> set checks" "mc_monitor_id c = monitor_uuid"
    and res: "get_latest_monitor_status checks monitor_uuid = [select_status_columns c]"
    and mx: "\<forall>c' \<in> set checks. mc_monitor_id c' = monitor_uuid \<longrightarrow>
                 mc_checked_at c' \<le> mc_checked_at c"
    by blast
  let ?S = "mc_checked_at ` {c \<in> set checks. mc_monitor_id c = monitor_uuid}"
  have "finite ?S" by simp
  moreover have "mc_checked_at c \<in> ?S" using c by blast
  moreover have "\<forall>t \<in> ?S. t \<le> mc_checked_at c" using mx by blast
  ultimately have "Max ?S = mc_checked_at c" by (meson Max_eqI)
  with res False show ?thesis by (simp add: select_status_columns_def)
qed

lemma length_get_latest_monitor_status:
  "length (get_latest_monitor_status checks monitor_uuid) \<le> 1"
  by (simp add: get_latest_monitor_status_def limit_1_def)

lemma get_latest_monitor_status_row:
  assumes "\<exists>c \<in> set checks. mc_monitor_id c = monitor_uuid"
  shows "\<exists>c \<in> set checks. mc_monitor_id c = monitor_uuid
           \<and> get_latest_monitor_status checks monitor_uuid
               = [\<lparr>sr_monitor_id = monitor_uuid, sr_status = mc_status c,
                   sr_checked_at = mc_checked_at c\<rparr>]
           \<and> mc_checked_at c
               = Max (mc_checked_at ` {c \<in> set checks. mc_monitor_id c = monitor_uuid})"
proof -
  from get_latest_monitor_status_max [OF assms]
  obtain c where c: "c \<in> set checks" "mc_monitor_id c = monitor_uuid"
    and res: "get_latest_monitor_status checks monitor_uuid = [select_status_columns c]"
    by blast
  from res c have row: "get_latest_monitor_status checks monitor_uuid
               = [\<lparr>sr_monitor_id = monitor_uuid, sr_status = mc_status c,
                   sr_checked_at = mc_checked_at c\<rparr>]"
    by (simp add: select_status_columns_def)
  from assms have "\<not> (\<forall>c \<in> set checks. mc_monitor_id c \<noteq> monitor_uuid)" by blast
  with row get_latest_monitor_status_checked_at [of checks monitor_uuid]
  have "mc_checked_at c
          = Max (mc_checked_at ` {c \<in> set checks. mc_monitor_id c = monitor_uuid})"
    by simp
  with c row show ?thesis by blast
qed

text \<open>
  Claim C2, as the helper function has it. For every monitor id and every content of
  \<open>monitor_checks\<close>, in whatever order the rows were inserted: if the monitor has no
  check, the helper function returns no row; otherwise it returns exactly one row,
  whose three columns are the monitor id asked for and the \<open>status\<close> and
  \<open>checked_at\<close> of a check of that monitor whose \<open>checked_at\<close> is the greatest among
  the monitor's checks. Inserting the same rows in another order gives a row with the
  same \<open>checked_at\<close>, and the same row altogether when the monitor's checks have
  pairwise different timestamps.
\<close>

theorem get_latest_monitor_status_is_max_checked_at:
  "(if \<forall>c \<in> set checks. mc_monitor_id c \<noteq> monitor_uuid
    then get_latest_monitor_status checks monitor_uuid = []
    else \<exists>c \<in> set checks. mc_monitor_id c = monitor_uuid
           \<and> get_latest_monitor_status checks monitor_uuid
               = [\<lparr>sr_monitor_id = monitor_uuid, sr_status = mc_status c,
                   sr_checked_at = mc_checked_at c\<rparr>]
           \<and> mc_checked_at c
               = Max (mc_checked_at ` {c \<in> set checks. mc_monitor_id c = monitor_uuid}))
   \<and> (\<forall>checks'. mset checks' = mset checks \<longrightarrow>
         map sr_checked_at (get_latest_monitor_status checks' monitor_uuid)
           = map sr_checked_at (get_latest_monitor_status checks monitor_uuid)
         \<and> (inj_on mc_checked_at {c \<in> set checks. mc_monitor_id c = monitor_uuid} \<longrightarrow>
              get_latest_monitor_status checks' monitor_uuid
                = get_latest_monitor_status checks monitor_uuid))"
proof (intro conjI allI impI)
  show "if \<forall>c \<in> set checks. mc_monitor_id c \<noteq> monitor_uuid
    then get_latest_monitor_status checks monitor_uuid = []
    else \<exists>c \<in> set checks. mc_monitor_id c = monitor_uuid
           \<and> get_latest_monitor_status checks monitor_uuid
               = [\<lparr>sr_monitor_id = monitor_uuid, sr_status = mc_status c,
                   sr_checked_at = mc_checked_at c\<rparr>]
           \<and> mc_checked_at c
               = Max (mc_checked_at ` {c \<in> set checks. mc_monitor_id c = monitor_uuid})"
  proof (cases "\<forall>c \<in> set checks. mc_monitor_id c \<noteq> monitor_uuid")
    case True
    then show ?thesis by (simp add: get_latest_monitor_status_empty)
  next
    case False
    then have ex: "\<exists>c \<in> set checks. mc_monitor_id c = monitor_uuid" by blast
    from get_latest_monitor_status_row [OF ex] ex show ?thesis by auto
  qed
next
  fix checks' assume perm: "mset checks' = mset checks"
  then have sets: "set checks' = set checks" by (rule mset_eq_setD)
  then show "map sr_checked_at (get_latest_monitor_status checks' monitor_uuid)
           = map sr_checked_at (get_latest_monitor_status checks monitor_uuid)"
    by (simp add: get_latest_monitor_status_checked_at)
  assume inj: "inj_on mc_checked_at {c \<in> set checks. mc_monitor_id c = monitor_uuid}"
  show "get_latest_monitor_status checks' monitor_uuid
          = get_latest_monitor_status checks monitor_uuid"
  proof (cases "\<forall>c \<in> set checks. mc_monitor_id c \<noteq> monitor_uuid")
    case True
    with sets show ?thesis by (simp add: get_latest_monitor_status_empty)
  next
    case False
    then have ex: "\<exists>c \<in> set checks. mc_monitor_id c = monitor_uuid" by blast
    with sets have ex': "\<exists>c \<in> set checks'. mc_monitor_id c = monitor_uuid" by simp
    from get_latest_monitor_status_max [OF ex]
    obtain c where c: "c \<in> set checks" "mc_monitor_id c = monitor_uuid"
      and res: "get_latest_monitor_status checks monitor_uuid = [select_status_columns c]"
      and mx: "\<forall>x \<in> set checks. mc_monitor_id x = monitor_uuid \<longrightarrow>
                 mc_checked_at x \<le> mc_checked_at c"
      by blast
    from get_latest_monitor_status_max [OF ex']
    obtain c' where c': "c' \<in> set checks'" "mc_monitor_id c' = monitor_uuid"
      and res': "get_latest_monitor_status checks' monitor_uuid = [select_status_columns c']"
      and mx': "\<forall>x \<in> set checks'. mc_monitor_id x = monitor_uuid \<longrightarrow>
                 mc_checked_at x \<le> mc_checked_at c'"
      by blast
    from c c' mx mx' sets have "mc_checked_at c' = mc_checked_at c"
      by (metis order_antisym)
    with inj c c' sets have "c' = c" by (simp add: inj_on_def)
    with res res' show ?thesis by simp
  qed
qed

theorem get_latest_monitor_status_is_max_checked_at_witness:
  "mset (rev out_of_order_checks) = mset out_of_order_checks
   \<and> inj_on mc_checked_at {c \<in> set out_of_order_checks. mc_monitor_id c = ''m1''}
   \<and> get_latest_monitor_status (rev out_of_order_checks) ''m1''
       = get_latest_monitor_status out_of_order_checks ''m1''
   \<and> get_latest_monitor_status out_of_order_checks ''m1''
       = [\<lparr>sr_monitor_id = ''m1'', sr_status = Up, sr_checked_at = 7\<rparr>]"
proof -
  have perm: "mset (rev out_of_order_checks) = mset out_of_order_checks" by simp
  have inj: "inj_on mc_checked_at {c \<in> set out_of_order_checks. mc_monitor_id c = ''m1''}"
    by (auto simp: inj_on_def out_of_order_checks_def check_at_def)
  have val: "get_latest_monitor_status out_of_order_checks ''m1''
       = [\<lparr>sr_monitor_id = ''m1'', sr_status = Up, sr_checked_at = 7\<rparr>]"
    by (simp add: get_latest_monitor_status_def out_of_order_checks_def check_at_def
          order_by_desc_def limit_1_def select_status_columns_def)
  from get_latest_monitor_status_is_max_checked_at [of out_of_order_checks "''m1''"]
  have "\<forall>checks'. mset checks' = mset out_of_order_checks \<longrightarrow>
         map sr_checked_at (get_latest_monitor_status checks' ''m1'')
           = map sr_checked_at (get_latest_monitor_status out_of_order_checks ''m1'')
         \<and> (inj_on mc_checked_at {c \<in> set out_of_order_checks. mc_monitor_id c = ''m1''} \<longrightarrow>
              get_latest_monitor_status checks' ''m1''
                = get_latest_monitor_status out_of_order_checks ''m1'')"
    by blast
  with perm inj have "get_latest_monitor_status (rev out_of_order_checks) ''m1''
       = get_latest_monitor_status out_of_order_checks ''m1''"
    by blast
  with perm inj val show ?thesis by blast
qed

text \<open>
  The statement that the helper function returns the check itself fails: two checks
  of \<open>m1\<close> at time 7 that differ in their identifier and in their latency (120 ms and
  30 ms) give the same row \<open>(m1, up, 7)\<close>, from which neither the latency nor the
  identifier can be read.
\<close>

theorem get_latest_monitor_status_is_max_checked_at_counterexample:
  "check_at ''c1'' ''m1'' Up 120 7 \<noteq> check_at ''c2'' ''m1'' Up 30 7
   \<and> get_latest_monitor_status [check_at ''c1'' ''m1'' Up 120 7] ''m1''
       = [\<lparr>sr_monitor_id = ''m1'', sr_status = Up, sr_checked_at = 7\<rparr>]
   \<and> get_latest_monitor_status [check_at ''c2'' ''m1'' Up 30 7] ''m1''
       = [\<lparr>sr_monitor_id = ''m1'', sr_status = Up, sr_checked_at = 7\<rparr>]"
  by (simp add: get_latest_monitor_status_def check_at_def order_by_desc_def limit_1_def
        select_status_columns_def)

section \<open>Properties of \<open>getMonitors\<close>\<close>

lemma set_select_monitors:
  "set (select_monitors db uid) = {m \<in> set (monitors db). m_user_id m = uid}"
  by (auto simp: select_monitors_def set_order_by_desc rls_monitors_def)

lemma length_select_monitors: "length (select_monitors db uid) = length (rls_monitors db uid)"
  by (simp add: select_monitors_def order_by_desc_def)

lemma rls_own_checks:
  assumes "m \<in> set (select_monitors db uid)"
  shows "filter (\<lambda>c. mc_monitor_id c = m_id m) (rls_monitor_checks db uid)
           = filter (\<lambda>c. mc_monitor_id c = m_id m) (monitor_checks db)"
proof -
  from assms have "m \<in> set (monitors db)" "m_user_id m = uid"
    by (simp_all add: set_select_monitors)
  then have "\<And>c. mc_monitor_id c = m_id m \<Longrightarrow>
      (\<exists>m' \<in> set (monitors db). m_id m' = mc_monitor_id c \<and> m_user_id m' = uid)"
    by auto
  then show ?thesis
    unfolding rls_monitor_checks_def filter_filter
    by (intro filter_cong) auto
qed

lemma get_latest_monitor_status_rls:
  assumes "m \<in> set (select_monitors db uid)"
  shows "get_latest_monitor_status (rls_monitor_checks db uid) (m_id m)
           = get_latest_monitor_status (monitor_checks db) (m_id m)"
  by (simp add: get_latest_monitor_status_def rls_own_checks [OF assms])

lemma getMonitors_ok:
  assumes "le_user env = Some uid" "\<not> le_fetchError env"
  shows "getMonitors env db ''GET'' =
           ([AuthGetUser, SelectMonitors]
              @ map (\<lambda>m. RpcLatestStatus (m_id m)) (select_monitors db uid),
            \<lparr>resp_status = 200,
             resp_body =
               MonitorList (map (\<lambda>m. snd (with_latest_status env db uid m))
                              (select_monitors db uid))
                 (length (select_monitors db uid))\<rparr>)"
  using assms by (simp add: getMonitors_def Let_def with_latest_status_def comp_def)

lemma with_latest_status_snd:
  assumes "m \<in> set (select_monitors db uid)"
  shows "snd (with_latest_status env db uid m) =
           \<lparr>mws_monitor = m,
            mws_latest_status =
              (case le_statusError env (m_id m) of
                 Some statusError \<Rightarrow> None
               | None \<Rightarrow>
                   (case get_latest_monitor_status (monitor_checks db) (m_id m) of
                      [] \<Rightarrow> None
                    | status # _ \<Rightarrow>
                        Some \<lparr>ls_status = sr_status status, ls_checked_at = sr_checked_at status,
                              ls_response_time_ms = None\<rparr>))\<rparr>"
  by (simp add: with_latest_status_def rpc_get_latest_monitor_status_def
        get_latest_monitor_status_rls [OF assms] row_response_time_ms_def
        split: option.split list.split)

lemma latest_status_of_listed:
  assumes m: "m \<in> set (select_monitors db uid)"
  shows "(mws_latest_status (snd (with_latest_status env db uid m)) = None \<longleftrightarrow>
            le_statusError env (m_id m) \<noteq> None
            \<or> (\<forall>c \<in> set (monitor_checks db). mc_monitor_id c \<noteq> m_id m))
         \<and> (le_statusError env (m_id m) = None
              \<and> (\<exists>c \<in> set (monitor_checks db). mc_monitor_id c = m_id m) \<longrightarrow>
            (\<exists>c \<in> set (monitor_checks db). \<exists>ls.
               mc_monitor_id c = m_id m
               \<and> (\<forall>c' \<in> set (monitor_checks db). mc_monitor_id c' = m_id m \<longrightarrow>
                     mc_checked_at c' \<le> mc_checked_at c)
               \<and> mws_latest_status (snd (with_latest_status env db uid m)) = Some ls
               \<and> ls_status ls = mc_status c \<and> ls_checked_at ls = mc_checked_at c))"
proof (cases "le_statusError env (m_id m)")
  case (Some e)
  then show ?thesis by (simp add: with_latest_status_snd [OF m])
next
  case None
  show ?thesis
  proof (cases "\<forall>c \<in> set (monitor_checks db). mc_monitor_id c \<noteq> m_id m")
    case True
    with None show ?thesis
      by (simp add: with_latest_status_snd [OF m] get_latest_monitor_status_empty)
  next
    case False
    then have ex: "\<exists>c \<in> set (monitor_checks db). mc_monitor_id c = m_id m" by blast
    from get_latest_monitor_status_max [OF ex]
    obtain c where c: "c \<in> set (monitor_checks db)" "mc_monitor_id c = m_id m"
      and res: "get_latest_monitor_status (monitor_checks db) (m_id m) = [select_status_columns c]"
      and mx: "\<forall>c' \<in> set (monitor_checks db). mc_monitor_id c' = m_id m \<longrightarrow>
                 mc_checked_at c' \<le> mc_checked_at c"
      by blast
    from None res
    have ls: "mws_latest_status (snd (with_latest_status env db uid m)) =
            Some \<lparr>ls_status = mc_status c, ls_checked_at = mc_checked_at c,
                  ls_response_time_ms = None\<rparr>"
      by (simp add: with_latest_status_snd [OF m] select_status_columns_def)
    have "\<exists>ls. mc_monitor_id c = m_id m
               \<and> (\<forall>c' \<in> set (monitor_checks db). mc_monitor_id c' = m_id m \<longrightarrow>
                     mc_checked_at c' \<le> mc_checked_at c)
               \<and> mws_latest_status (snd (with_latest_status env db uid m)) = Some ls
               \<and> ls_status ls = mc_status c \<and> ls_checked_at ls = mc_checked_at c"
      using c mx ls by simp
    with c have "\<exists>c \<in> set (monitor_checks db). \<exists>ls.
               mc_monitor_id c = m_id m
               \<and> (\<forall>c' \<in> set (monitor_checks db). mc_monitor_id c' = m_id m \<longrightarrow>
                     mc_checked_at c' \<le> mc_checked_at c)
               \<and> mws_latest_status (snd (with_latest_status env db uid m)) = Some ls
               \<and> ls_status ls = mc_status c \<and> ls_checked_at ls = mc_checked_at c"
      by blast
    moreover from ls have "mws_latest_status (snd (with_latest_status env db uid m)) \<noteq> None"
      by simp
    ultimately show ?thesis using None False by blast
  qed
qed

text \<open>
  Claim C6, as the handler has it. For an authenticated \<open>GET\<close> without
  \<open>fetchError\<close> the response is 200 and lists the caller's monitors, newest first, each
  with its \<open>latest_status\<close>. For a listed monitor whose lookup reports no error and
  that has at least one check, \<open>latest_status\<close> carries the \<open>status\<close> and the
  \<open>checked_at\<close> of a check of that monitor with the greatest \<open>checked_at\<close>.
  \<open>latest_status\<close> is \<open>null\<close> exactly when the monitor has no check or the lookup
  reported an error.
\<close>

theorem getMonitors_latest_status:
  assumes "le_user env = Some uid" "\<not> le_fetchError env"
  shows "\<exists>entries.
     snd (getMonitors env db ''GET'')
       = \<lparr>resp_status = 200, resp_body = MonitorList entries (length entries)\<rparr>
     \<and> map mws_monitor entries = select_monitors db uid
     \<and> (\<forall>e \<in> set entries.
          (mws_latest_status e = None \<longleftrightarrow>
             le_statusError env (m_id (mws_monitor e)) \<noteq> None
             \<or> (\<forall>c \<in> set (monitor_checks db). mc_monitor_id c \<noteq> m_id (mws_monitor e)))
          \<and> (le_statusError env (m_id (mws_monitor e)) = None
               \<and> (\<exists>c \<in> set (monitor_checks db). mc_monitor_id c = m_id (mws_monitor e)) \<longrightarrow>
             (\<exists>c \<in> set (monitor_checks db). \<exists>ls.
                mc_monitor_id c = m_id (mws_monitor e)
                \<and> (\<forall>c' \<in> set (monitor_checks db).
                      mc_monitor_id c' = m_id (mws_monitor e) \<longrightarrow>
                      mc_checked_at c' \<le> mc_checked_at c)
                \<and> mws_latest_status e = Some ls
                \<and> ls_status ls = mc_status c \<and> ls_checked_at ls = mc_checked_at c)))"
proof -
  let ?entries = "map (\<lambda>m. snd (with_latest_status env db uid m)) (select_monitors db uid)"
  have resp: "snd (getMonitors env db ''GET'')
       = \<lparr>resp_status = 200, resp_body = MonitorList ?entries (length ?entries)\<rparr>"
    by (simp add: getMonitors_ok [OF assms])
  have mons: "map mws_monitor ?entries = select_monitors db uid"
    by (simp add: comp_def with_latest_status_def map_idI)
  have each: "(mws_latest_status e = None \<longleftrightarrow>
             le_statusError env (m_id (mws_monitor e)) \<noteq> None
             \<or> (\<forall>c \<in> set (monitor_checks db). mc_monitor_id c \<noteq> m_id (mws_monitor e)))
          \<and> (le_statusError env (m_id (mws_monitor e)) = None
               \<and> (\<exists>c \<in> set (monitor_checks db). mc_monitor_id c = m_id (mws_monitor e)) \<longrightarrow>
             (\<exists>c \<in> set (monitor_checks db). \<exists>ls.
                mc_monitor_id c = m_id (mws_monitor e)
                \<and> (\<forall>c' \<in> set (monitor_checks db).
                      mc_monitor_id c' = m_id (mws_monitor e) \<longrightarrow>
                      mc_checked_at c' \<le> mc_checked_at c)
                \<and> mws_latest_status e = Some ls
                \<and> ls_status ls = mc_status c \<and> ls_checked_at ls = mc_checked_at c))"
    if "e \<in> set ?entries" for e
  proof -
    from that obtain m where m: "m \<in> set (select_monitors db uid)"
      and e: "e = snd (with_latest_status env db uid m)"
      by auto
    have "mws_monitor e = m" by (simp add: e with_latest_status_def)
    with latest_status_of_listed [OF m, of env] e show ?thesis by simp
  qed
  from resp mons each show ?thesis by blast
qed

theorem getMonitors_latest_status_witness:
  "le_user (alice_list_env no_statusError) = Some ''alice''
   \<and> \<not> le_fetchError (alice_list_env no_statusError)
   \<and> (\<exists>entries.
        snd (getMonitors (alice_list_env no_statusError) checked_db ''GET'')
          = \<lparr>resp_status = 200, resp_body = MonitorList entries (length entries)\<rparr>
        \<and> map mws_monitor entries = [site_monitor ''m1'' 100]
        \<and> (\<forall>e \<in> set entries. \<exists>ls.
              mws_latest_status e = Some ls \<and> ls_status ls = Up \<and> ls_checked_at ls = 7))"
proof -
  let ?env = "alice_list_env no_statusError"
  have u: "le_user ?env = Some ''alice''" and f: "\<not> le_fetchError ?env"
    by (simp_all add: alice_list_env_def)
  have sel: "select_monitors checked_db ''alice'' = [site_monitor ''m1'' 100]"
    by (simp add: select_monitors_def rls_monitors_def order_by_desc_def checked_db_def
          site_monitor_def)
  have checks: "monitor_checks checked_db = [check_at ''c1'' ''m1'' Up 120 7]"
    by (simp add: checked_db_def)
  from getMonitors_latest_status [OF u f, of checked_db]
  obtain entries where
    resp: "snd (getMonitors ?env checked_db ''GET'')
       = \<lparr>resp_status = 200, resp_body = MonitorList entries (length entries)\<rparr>"
    and mons: "map mws_monitor entries = select_monitors checked_db ''alice''"
    and each: "\<forall>e \<in> set entries.
          (mws_latest_status e = None \<longleftrightarrow>
             le_statusError ?env (m_id (mws_monitor e)) \<noteq> None
             \<or> (\<forall>c \<in> set (monitor_checks checked_db). mc_monitor_id c \<noteq> m_id (mws_monitor e)))
          \<and> (le_statusError ?env (m_id (mws_monitor e)) = None
               \<and> (\<exists>c \<in> set (monitor_checks checked_db). mc_monitor_id c = m_id (mws_monitor e)) \<longrightarrow>
             (\<exists>c \<in> set (monitor_checks checked_db). \<exists>ls.
                mc_monitor_id c = m_id (mws_monitor e)
                \<and> (\<forall>c' \<in> set (monitor_checks checked_db).
                      mc_monitor_id c' = m_id (mws_monitor e) \<longrightarrow>
                      mc_checked_at c' \<le> mc_checked_at c)
                \<and> mws_latest_status e = Some ls
                \<and> ls_status ls = mc_status c \<and> ls_checked_at ls = mc_checked_at c))"
    by blast
  have "\<exists>ls. mws_latest_status e = Some ls \<and> ls_status ls = Up \<and> ls_checked_at ls = 7"
    if e: "e \<in> set entries" for e
  proof -
    from e mons sel have "mws_monitor e \<in> set [site_monitor ''m1'' 100]"
      by (metis imageI set_map)
    then have mid: "m_id (mws_monitor e) = ''m1''" by (simp add: site_monitor_def)
    have "le_statusError ?env (m_id (mws_monitor e)) = None"
      by (simp add: alice_list_env_def no_statusError_def)
    moreover have "\<exists>c \<in> set (monitor_checks checked_db). mc_monitor_id c = m_id (mws_monitor e)"
      by (simp add: checks mid check_at_def)
    ultimately obtain c ls where "c \<in> set (monitor_checks checked_db)"
      and "mws_latest_status e = Some ls"
      and "ls_status ls = mc_status c" "ls_checked_at ls = mc_checked_at c"
      using each e by blast
    then show ?thesis by (auto simp: checks check_at_def)
  qed
  with resp mons sel u f show ?thesis by auto
qed

text \<open>
  The statement with the latency, and with "absent only when never checked", fails: the
  monitor \<open>m1\<close> has one check, up after 120 ms at time 7. The listing attaches
  \<open>{status: up, checked_at: 7}\<close> without a \<open>response_time_ms\<close>, since the row of the
  helper function has no such column; and when the lookup reports an error the listing
  attaches \<open>null\<close> although the monitor has been checked.
\<close>

theorem getMonitors_latest_status_counterexample:
  "map mc_response_time_ms (monitor_checks checked_db) = [Some 120]
   \<and> snd (getMonitors (alice_list_env no_statusError) checked_db ''GET'')
       = \<lparr>resp_status = 200,
          resp_body =
            MonitorList
              [\<lparr>mws_monitor = site_monitor ''m1'' 100,
                mws_latest_status =
                  Some \<lparr>ls_status = Up, ls_checked_at = 7, ls_response_time_ms = None\<rparr>\<rparr>]
              1\<rparr>
   \<and> snd (getMonitors (alice_list_env (statusError_for ''m1'')) checked_db ''GET'')
       = \<lparr>resp_status = 200,
          resp_body =
            MonitorList
              [\<lparr>mws_monitor = site_monitor ''m1'' 100, mws_latest_status = None\<rparr>] 1\<rparr>"
  by (simp add: getMonitors_def alice_list_env_def checked_db_def with_latest_status_def
        rpc_get_latest_monitor_status_def no_statusError_def statusError_for_def
        select_monitors_def rls_monitors_def rls_monitor_checks_def order_by_desc_def
        get_latest_monitor_status_def limit_1_def select_status_columns_def
        row_response_time_ms_def site_monitor_def check_at_def)

text \<open>
  Claim C7, as the handler has it. For an authenticated \<open>GET\<close> without \<open>fetchError\<close>
  the handler makes one call of \<open>get_latest_monitor_status\<close> for each listed monitor,
  after \<open>auth.getUser\<close> and the one query on \<open>monitors\<close>: \<open>n + 2\<close> round trips
  for \<open>n\<close> monitors. Each of these calls returns at most one row.
\<close>

theorem getMonitors_one_rpc_per_monitor:
  assumes "le_user env = Some uid" "\<not> le_fetchError env"
  shows "fst (getMonitors env db ''GET'')
           = [AuthGetUser, SelectMonitors]
               @ map (\<lambda>m. RpcLatestStatus (m_id m)) (select_monitors db uid)
         \<and> length (fst (getMonitors env db ''GET'')) = 2 + length (select_monitors db uid)
         \<and> (\<forall>monitor_uuid rows.
              rpc_get_latest_monitor_status env db uid monitor_uuid = RpcData rows \<longrightarrow>
              length rows \<le> 1)"
proof (intro conjI allI impI)
  show calls: "fst (getMonitors env db ''GET'')
           = [AuthGetUser, SelectMonitors]
               @ map (\<lambda>m. RpcLatestStatus (m_id m)) (select_monitors db uid)"
    by (simp add: getMonitors_ok [OF assms])
  show "length (fst (getMonitors env db ''GET'')) = 2 + length (select_monitors db uid)"
    by (simp add: calls)
next
  fix monitor_uuid rows
  assume "rpc_get_latest_monitor_status env db uid monitor_uuid = RpcData rows"
  then have "rows = get_latest_monitor_status (rls_monitor_checks db uid) monitor_uuid"
    by (auto simp: rpc_get_latest_monitor_status_def split: option.splits)
  then show "length rows \<le> 1"
    using length_get_latest_monitor_status [of "rls_monitor_checks db uid" monitor_uuid]
    by simp
qed

theorem getMonitors_one_rpc_per_monitor_witness:
  "le_user (alice_list_env no_statusError) = Some ''alice''
   \<and> \<not> le_fetchError (alice_list_env no_statusError)
   \<and> length (fst (getMonitors (alice_list_env no_statusError) three_monitors_db ''GET'')) = 5
   \<and> rpc_get_latest_monitor_status (alice_list_env no_statusError) three_monitors_db
        ''alice'' ''m1''
       = RpcData [\<lparr>sr_monitor_id = ''m1'', sr_status = Up, sr_checked_at = 7\<rparr>]
   \<and> length [\<lparr>sr_monitor_id = ''m1'', sr_status = Up, sr_checked_at = 7\<rparr>] \<le> 1"
proof -
  let ?env = "alice_list_env no_statusError"
  have u: "le_user ?env = Some ''alice''" and f: "\<not> le_fetchError ?env"
    by (simp_all add: alice_list_env_def)
  have sel: "length (select_monitors three_monitors_db ''alice'') = 3"
    by (simp add: length_select_monitors rls_monitors_def three_monitors_db_def site_monitor_def)
  have rpc: "rpc_get_latest_monitor_status ?env three_monitors_db ''alice'' ''m1''
       = RpcData [\<lparr>sr_monitor_id = ''m1'', sr_status = Up, sr_checked_at = 7\<rparr>]"
    by (simp add: rpc_get_latest_monitor_status_def alice_list_env_def no_statusError_def
          get_latest_monitor_status_def rls_monitor_checks_def three_monitors_db_def
          order_by_desc_def limit_1_def select_status_columns_def site_monitor_def check_at_def)
  from getMonitors_one_rpc_per_monitor [OF u f, of three_monitors_db]
  have len: "length (fst (getMonitors ?env three_monitors_db ''GET''))
               = 2 + length (select_monitors three_monitors_db ''alice'')"
    and one: "\<forall>monitor_uuid rows.
              rpc_get_latest_monitor_status ?env three_monitors_db ''alice'' monitor_uuid
                = RpcData rows \<longrightarrow> length rows \<le> 1"
    by blast+
  from one rpc have "length [\<lparr>sr_monitor_id = ''m1'', sr_status = Up, sr_checked_at = 7\<rparr>] \<le> 1"
    by blast
  with len sel rpc u f show ?thesis by simp
qed

text \<open>
  The statement with a single batched query fails: with three monitors the handler
  makes three calls of the helper function.
\<close>

theorem getMonitors_one_rpc_per_monitor_counterexample:
  "fst (getMonitors (alice_list_env no_statusError) three_monitors_db ''GET'')
     = [AuthGetUser, SelectMonitors,
        RpcLatestStatus ''m3'', RpcLatestStatus ''m2'', RpcLatestStatus ''m1'']"
  by (simp add: getMonitors_def alice_list_env_def three_monitors_db_def with_latest_status_def
        select_monitors_def rls_monitors_def order_by_desc_def site_monitor_def)

text \<open>
  Claim C10. When the lookup of the latest status of a listed monitor reports an
  error, the listing still answers 200, the monitor is in the list with
  \<open>latest_status\<close> \<open>null\<close>, and its entry is the one the same monitor gets when no
  lookup fails and the monitor has no check at all.
\<close>

theorem getMonitors_swallows_statusError:
  assumes "le_user env = Some uid" "\<not> le_fetchError env"
    and m: "m \<in> set (select_monitors db uid)"
    and err: "le_statusError env (m_id m) = Some statusError"
  shows "\<exists>entries.
     snd (getMonitors env db ''GET'')
       = \<lparr>resp_status = 200, resp_body = MonitorList entries (length entries)\<rparr>
     \<and> \<lparr>mws_monitor = m, mws_latest_status = None\<rparr> \<in> set entries
     \<and> snd (with_latest_status env db uid m)
         = snd (with_latest_status (env\<lparr>le_statusError := (\<lambda>monitor_uuid. None)\<rparr>)
                  (db\<lparr>monitor_checks := []\<rparr>) uid m)"
proof -
  let ?entries = "map (\<lambda>m. snd (with_latest_status env db uid m)) (select_monitors db uid)"
  have resp: "snd (getMonitors env db ''GET'')
       = \<lparr>resp_status = 200, resp_body = MonitorList ?entries (length ?entries)\<rparr>"
    by (simp add: getMonitors_ok [OF assms(1,2)])
  have entry: "snd (with_latest_status env db uid m)
                 = \<lparr>mws_monitor = m, mws_latest_status = None\<rparr>"
    using err by (simp add: with_latest_status_snd [OF m])
  with m have mem: "\<lparr>mws_monitor = m, mws_latest_status = None\<rparr> \<in> set ?entries"
    by (metis (no_types, lifting) image_eqI set_map)
  have "snd (with_latest_status (env\<lparr>le_statusError := (\<lambda>monitor_uuid. None)\<rparr>)
               (db\<lparr>monitor_checks := []\<rparr>) uid m)
          = \<lparr>mws_monitor = m, mws_latest_status = None\<rparr>"
    by (simp add: with_latest_status_def rpc_get_latest_monitor_status_def
          rls_monitor_checks_def get_latest_monitor_status_def order_by_desc_def limit_1_def)
  with entry resp mem show ?thesis by metis
qed

theorem getMonitors_swallows_statusError_witness:
  "le_user (alice_list_env (statusError_for ''m1'')) = Some ''alice''
   \<and> \<not> le_fetchError (alice_list_env (statusError_for ''m1''))
   \<and> site_monitor ''m1'' 100 \<in> set (select_monitors three_monitors_db ''alice'')
   \<and> le_statusError (alice_list_env (statusError_for ''m1'')) (m_id (site_monitor ''m1'' 100))
       = Some ''connection reset''
   \<and> (\<exists>entries.
        snd (getMonitors (alice_list_env (statusError_for ''m1'')) three_monitors_db ''GET'')
          = \<lparr>resp_status = 200, resp_body = MonitorList entries (length entries)\<rparr>
        \<and> \<lparr>mws_monitor = site_monitor ''m1'' 100, mws_latest_status = None\<rparr> \<in> set entries)"
proof -
  let ?env = "alice_list_env (statusError_for ''m1'')"
  have u: "le_user ?env = Some ''alice''" and f: "\<not> le_fetchError ?env"
    by (simp_all add: alice_list_env_def)
  have m: "site_monitor ''m1'' 100 \<in> set (select_monitors three_monitors_db ''alice'')"
    by (simp add: set_select_monitors three_monitors_db_def site_monitor_def)
  have err: "le_statusError ?env (m_id (site_monitor ''m1'' 100)) = Some ''connection reset''"
    by (simp add: alice_list_env_def statusError_for_def site_monitor_def)
  from getMonitors_swallows_statusError [OF u f m err]
  have "\<exists>entries.
        snd (getMonitors ?env three_monitors_db ''GET'')
          = \<lparr>resp_status = 200, resp_body = MonitorList entries (length entries)\<rparr>
        \<and> \<lparr>mws_monitor = site_monitor ''m1'' 100, mws_latest_status = None\<rparr> \<in> set entries"
    by blast
  with u f m err show ?thesis by blast
qed

section \<open>Properties of \<open>createMonitor\<close>\<close>

text \<open>
  Once the required fields are present, the type is one of the three and the URL
  parses, the handler inserts the monitor. The interval is stored as sent (300 when it
  is missing or 0), and the name is stored as sent.
\<close>

lemma createMonitor_created:
  assumes "ce_user env = Some user_id" "\<not> ce_insertError env"
    and "\<not> falsy (body_name body)" "\<not> falsy (body_url body)"
    and "string_value (body_type body) \<in> {''http'', ''https'', ''ping''}"
    and "ce_URL_parses env (string_value (body_url body))"
  shows "createMonitor env db ''POST'' (Some body) =
           (\<lparr>resp_status = 201,
             resp_body = CreatedMonitor
               \<lparr>m_id = ce_uuid env, m_user_id = user_id,
                m_name = string_value (body_name body), m_url = string_value (body_url body),
                m_type = string_value (body_type body),
                m_interval_seconds = or_default (body_interval_seconds body) 300,
                m_created_at = ce_now env\<rparr>\<rparr>,
            db\<lparr>monitors := monitors db @
               [\<lparr>m_id = ce_uuid env, m_user_id = user_id,
                m_name = string_value (body_name body), m_url = string_value (body_url body),
                m_type = string_value (body_type body),
                m_interval_seconds = or_default (body_interval_seconds body) 300,
                m_created_at = ce_now env\<rparr>]\<rparr>)"
proof -
  from assms(5) have "\<not> falsy (body_type body)"
    by (auto simp: falsy_def string_value_def split: option.splits)
  with assms show ?thesis
    by (simp add: createMonitor_def Let_def)
qed

text \<open>
  Claim C1. The handler has no check of the interval: an authenticated request with
  \<open>interval_seconds = 30\<close> is answered 201 and the monitor is inserted with an interval
  of 30 seconds. (The form of the web client asks for at least 60 seconds.)
\<close>

theorem createMonitor_accepts_interval_30:
  "createMonitor alice_create_env empty_db ''POST'' (Some (site_request ''site'' (Some 30)))
     = (\<lparr>resp_status = 201,
         resp_body = CreatedMonitor
           \<lparr>m_id = ''m1'', m_user_id = ''alice'', m_name = ''site'',
            m_url = ''https://example.test'', m_type = ''https'', m_interval_seconds = 30,
            m_created_at = 100\<rparr>\<rparr>,
        \<lparr>monitors =
           [\<lparr>m_id = ''m1'', m_user_id = ''alice'', m_name = ''site'',
             m_url = ''https://example.test'', m_type = ''https'', m_interval_seconds = 30,
             m_created_at = 100\<rparr>],
         monitor_checks = []\<rparr>)"
  by (simp add: createMonitor_def alice_create_env_def empty_db_def site_request_def
        falsy_def string_value_def or_default_def Let_def)

text \<open>
  Claim C8. The handler tests \<open>!body.name\<close> and does not trim: an authenticated request
  whose name is three spaces is answered 201 and the monitor is inserted under that
  name. (The form of the web client tests \<open>!formData.name.trim()\<close>.)
\<close>

theorem createMonitor_accepts_blank_name:
  "createMonitor alice_create_env empty_db ''POST'' (Some (site_request ''   '' None))
     = (\<lparr>resp_status = 201,
         resp_body = CreatedMonitor
           \<lparr>m_id = ''m1'', m_user_id = ''alice'', m_name = ''   '',
            m_url = ''https://example.test'', m_type = ''https'', m_interval_seconds = 300,
            m_created_at = 100\<rparr>\<rparr>,
        \<lparr>monitors =
           [\<lparr>m_id = ''m1'', m_user_id = ''alice'', m_name = ''   '',
             m_url = ''https://example.test'', m_type = ''https'', m_interval_seconds = 300,
             m_created_at = 100\<rparr>],
         monitor_checks = []\<rparr>)"
  by (simp add: createMonitor_def alice_create_env_def empty_db_def site_request_def
        falsy_def string_value_def or_default_def Let_def)

end
